theory Spec2Isabelle
  imports Complex_Main "HOL-Library.Multiset"
begin

section \<open>The stock dashboard (frontend/src/App.tsx)\<close>

text \<open>
  The dashboard is one React component. Its state is eight \<open>useState\<close> cells; the
  handlers and the two asynchronous procedures (\<open>fetchStock\<close>, \<open>fetchSuggestions\<close>)
  replace cells by new values. The embedding passes the state explicitly. An asynchronous
  procedure is split at its single \<open>await\<close>: the part before it, and the part that runs
  when the network answers, which takes the answer as an argument. All updates of the
  three per-symbol maps are functional updaters (\<open>m => ...\<close>), so each part acts on the
  state current at the time it runs.
\<close>

subsection \<open>JavaScript numbers\<close>

text \<open>
  A JavaScript number is \<open>NaN\<close>, an infinity, the negative zero, or the double of real
  value \<open>r\<close>, written \<open>Fin r\<close> (\<open>Fin 0\<close> is the positive zero). The arithmetic whose
  results the component stores is not defined here: it is the runtime's, rounding,
  overflow and signed zeros included (\<open>num_sub\<close>, \<open>num_div\<close>, \<open>num_mul\<close> of \<open>js_env\<close>
  below).

  The comparators of the two sorts are differences of which the sort tests one thing,
  whether they are positive. \<open>js_sub\<close> is the exact difference. The rounded difference of
  two doubles is positive exactly when the exact one is, and \<open>NaN\<close> exactly when an
  operand is \<open>NaN\<close> or both are the same infinity; a zero result is written \<open>Fin 0\<close>
  whatever its sign.
\<close>

datatype jsnum = NaN | NegInf | Fin real | NegZero | PosInf

fun js_sub :: "jsnum \<Rightarrow> jsnum \<Rightarrow> jsnum" where
  "js_sub NaN b = NaN"
| "js_sub a NaN = NaN"
| "js_sub (Fin x) (Fin y) = Fin (x - y)"
| "js_sub (Fin x) NegZero = Fin x"
| "js_sub NegZero (Fin y) = Fin (- y)"
| "js_sub NegZero NegZero = Fin 0"
| "js_sub PosInf PosInf = NaN"
| "js_sub NegInf NegInf = NaN"
| "js_sub PosInf b = PosInf"
| "js_sub NegInf b = NegInf"
| "js_sub a PosInf = NegInf"
| "js_sub a NegInf = PosInf"

text \<open>\<open>v > 0\<close>, the test a comparator's result is put to; false on \<open>NaN\<close>.\<close>

fun js_pos :: "jsnum \<Rightarrow> bool" where
  "js_pos PosInf = True"
| "js_pos (Fin x) = (0 < x)"
| "js_pos v = False"

text \<open>\<open>a <= b\<close> on numbers; every comparison with \<open>NaN\<close> is false, the two zeros are equal.\<close>

fun js_le :: "jsnum \<Rightarrow> jsnum \<Rightarrow> bool" where
  "js_le NaN b = False"
| "js_le a NaN = False"
| "js_le NegInf b = True"
| "js_le a PosInf = True"
| "js_le (Fin x) (Fin y) = (x \<le> y)"
| "js_le (Fin x) NegZero = (x \<le> 0)"
| "js_le NegZero (Fin y) = (0 \<le> y)"
| "js_le NegZero NegZero = True"
| "js_le a b = False"

subsection \<open>\<open>Array.prototype.sort\<close> with a comparator\<close>

text \<open>
  The sort is stable (ECMAScript 2019). \<open>x\<close> goes behind \<open>y\<close> exactly when
  \<open>cmp x y > 0\<close>; a result of \<open>0\<close> or \<open>NaN\<close> keeps the two in their order. The model is
  the stable insertion sort. Every stable sort returns this list where the comparator is
  consistent, which it is when no operand makes it \<open>NaN\<close>; the statements below about
  the order of a sorted list are made under that condition. Where the comparator is not
  consistent ECMAScript leaves the order to the implementation, and an engine may
  return another permutation than this one.
\<close>

fun insert_by :: "('a \<Rightarrow> 'a \<Rightarrow> jsnum) \<Rightarrow> 'a \<Rightarrow> 'a list \<Rightarrow> 'a list" where
  "insert_by cmp x [] = [x]"
| "insert_by cmp x (y # ys) =
     (if js_pos (cmp x y) then y # insert_by cmp x ys else x # y # ys)"

definition js_sort :: "('a \<Rightarrow> 'a \<Rightarrow> jsnum) \<Rightarrow> 'a list \<Rightarrow> 'a list" where
  "js_sort cmp xs = foldr (insert_by cmp) xs []"

text \<open>\<open>xs[i]\<close>: \<open>undefined\<close> (here \<open>None\<close>) outside the array, also for a negative index.\<close>

definition js_index :: "'a list \<Rightarrow> int \<Rightarrow> 'a option" where
  "js_index xs i = (if 0 \<le> i \<and> i < int (length xs) then Some (xs ! nat i) else None)"

subsection \<open>Types of the component\<close>

record TimePoint =
  time :: string
  close :: jsnum

record StockData =
  symbol :: string
  latestClose :: jsnum
  changePct :: jsnum
  history :: "TimePoint list"

record SearchMatch =
  match_symbol :: string
  match_name :: string

text \<open>
  The value under a time key of the raw series: \<open>null\<close>, or an object whose field
  \<open>'4. close'\<close> may be missing. The raw series itself is the list \<open>Object.entries\<close>
  returns, in its order.
\<close>

datatype raw_vals = NullVals | Vals "string option"

type_synonym RawTimeSeries = "(string \<times> raw_vals) list"

text \<open>
  What \<open>axios.get(DATA_API, ...)\<close> settles to: a rejection whose error has a message, or
  a response whose \<open>data\<close> is \<open>null\<close>, or an object whose field \<open>'Time Series (5min)'\<close>
  is missing or falsy (\<open>None\<close>) or a raw series.
\<close>

datatype body = NullBody | Body "RawTimeSeries option"

datatype response = Rejected string | Resolved body

text \<open>The property reads of \<open>fetchStock\<close> that throw a \<open>TypeError\<close> on \<open>null\<close> or \<open>undefined\<close>.\<close>

datatype read_site = DataOfBody | CloseOfVals | CloseOfLast | CloseOfPrev

datatype js_exn = AxiosError string | Error string | TypeError read_site

text \<open>
  What the JavaScript runtime supplies: \<open>parseFloat\<close> on a string, the epoch milliseconds
  of \<open>new Date(s).getTime()\<close> (\<open>None\<close> for an invalid date, whose time is \<open>NaN\<close>), the
  engine's wording of a \<open>TypeError\<close>, and the operators \<open>-\<close>, \<open>/\<close> and \<open>*\<close> on
  doubles.
\<close>

record js_env =
  parseFloat :: "string \<Rightarrow> jsnum"
  getTime :: "string \<Rightarrow> int option"
  typeErrorMessage :: "read_site \<Rightarrow> string"
  num_sub :: "jsnum \<Rightarrow> jsnum \<Rightarrow> jsnum"
  num_div :: "jsnum \<Rightarrow> jsnum \<Rightarrow> jsnum"
  num_mul :: "jsnum \<Rightarrow> jsnum \<Rightarrow> jsnum"

fun message :: "js_env \<Rightarrow> js_exn \<Rightarrow> string" where
  "message env (AxiosError m) = m"
| "message env (Error m) = m"
| "message env (TypeError site) = typeErrorMessage env site"

record app_state =
  symbols :: "string list"
  dataMap :: "string \<rightharpoonup> StockData"
  loadingMap :: "string \<rightharpoonup> bool"
  errorMap :: "string \<rightharpoonup> string"
  selected :: "string set"
  sortAsc :: bool
  query :: string
  suggestions :: "SearchMatch list"

definition initial_state :: app_state where
  "initial_state = \<lparr>symbols = [''AAPL''], dataMap = Map.empty, loadingMap = Map.empty,
     errorMap = Map.empty, selected = {}, sortAsc = True, query = [], suggestions = []\<rparr>"

subsection \<open>\<open>fetchStock\<close>\<close>

text \<open>Lines 63-64: before the request is sent.\<close>

definition fetchStock_start :: "string \<Rightarrow> app_state \<Rightarrow> app_state" where
  "fetchStock_start symb st =
     st\<lparr>loadingMap := (loadingMap st)(symb \<mapsto> True), errorMap := (errorMap st)(symb \<mapsto> [])\<rparr>"

text \<open>Line 74: the \<open>map\<close> over the entries; reading \<open>'4. close'\<close> of \<open>null\<close> throws.\<close>

fun parse_points :: "js_env \<Rightarrow> RawTimeSeries \<Rightarrow> js_exn + TimePoint list" where
  "parse_points env [] = Inr []"
| "parse_points env ((t, NullVals) # rest) = Inl (TypeError CloseOfVals)"
| "parse_points env ((t, Vals v) # rest) =
     (case parse_points env rest of
        Inl e \<Rightarrow> Inl e
      | Inr ps \<Rightarrow>
          Inr (\<lparr>time = t, close = (case v of None \<Rightarrow> NaN | Some s \<Rightarrow> parseFloat env s)\<rparr> # ps))"

definition time_num :: "js_env \<Rightarrow> string \<Rightarrow> jsnum" where
  "time_num env t = (case getTime env t of None \<Rightarrow> NaN | Some ms \<Rightarrow> Fin (real_of_int ms))"

text \<open>Line 75: the comparator of the sort.\<close>

definition time_cmp :: "js_env \<Rightarrow> TimePoint \<Rightarrow> TimePoint \<Rightarrow> jsnum" where
  "time_cmp env a b = js_sub (time_num env (time a)) (time_num env (time b))"

text \<open>Lines 66-88, the \<open>try\<close> block: the snapshot it builds, or what it throws.\<close>

definition fetchStock_try :: "js_env \<Rightarrow> string \<Rightarrow> response \<Rightarrow> js_exn + StockData" where
  "fetchStock_try env symb res =
     (case res of
        Rejected m \<Rightarrow> Inl (AxiosError m)
      | Resolved NullBody \<Rightarrow> Inl (TypeError DataOfBody)
      | Resolved (Body None) \<Rightarrow> Inl (Error (''No data for '' @ symb))
      | Resolved (Body (Some rawSeries)) \<Rightarrow>
          (case parse_points env rawSeries of
             Inl e \<Rightarrow> Inl e
           | Inr ps \<Rightarrow>
               (let points = js_sort (time_cmp env) ps in
                case js_index points (int (length points) - 1) of
                  None \<Rightarrow> Inl (TypeError CloseOfLast)
                | Some lastPoint \<Rightarrow>
                    (case js_index points (int (length points) - 2) of
                       None \<Rightarrow> Inl (TypeError CloseOfPrev)
                     | Some prevPoint \<Rightarrow>
                         Inr \<lparr>symbol = symb,
                              latestClose = close lastPoint,
                              changePct =
                                num_mul env
                                  (num_div env
                                     (num_sub env (close lastPoint) (close prevPoint))
                                     (close prevPoint))
                                  (Fin 100),
                              history = points\<rparr>))))"

text \<open>Lines 81-95: the state updates once the request has settled.\<close>

definition fetchStock_complete :: "js_env \<Rightarrow> string \<Rightarrow> response \<Rightarrow> app_state \<Rightarrow> app_state" where
  "fetchStock_complete env symb res st =
     (let st' =
        (case fetchStock_try env symb res of
           Inr d \<Rightarrow> st\<lparr>dataMap := (dataMap st)(symb \<mapsto> d)\<rparr>
         | Inl e \<Rightarrow>
             st\<lparr>errorMap := (errorMap st)(symb \<mapsto> message env e),
                dataMap := (dataMap st)(symb := None)\<rparr>)
      in st'\<lparr>loadingMap := (loadingMap st')(symb \<mapsto> False)\<rparr>)"

text \<open>A whole run of \<open>fetchStock\<close> with nothing else in between.\<close>

definition fetchStock :: "js_env \<Rightarrow> string \<Rightarrow> response \<Rightarrow> app_state \<Rightarrow> app_state" where
  "fetchStock env symb res st = fetchStock_complete env symb res (fetchStock_start symb st)"

subsection \<open>\<open>fetchSuggestions\<close>\<close>





subsection \<open>Handlers\<close>

text \<open>
  \<open>handleQueryChange\<close> returns the new state and the keyword of the suggestion request it
  sends, if it sends one. The length is the string's own.
\<close>

definition handleQueryChange :: "string \<Rightarrow> app_state \<Rightarrow> app_state \<times> string option" where
  "handleQueryChange v st =
     (if length v \<ge> 2 then (st\<lparr>query := v\<rparr>, Some v)
      else (st\<lparr>query := v, suggestions := []\<rparr>, None))"

definition handleAdd :: "string \<Rightarrow> app_state \<Rightarrow> app_state" where
  "handleAdd symb st =
     (let st' = (if symb \<notin> set (symbols st) then st\<lparr>symbols := symbols st @ [symb]\<rparr> else st)
      in st'\<lparr>query := [], suggestions := []\<rparr>)"

definition toggleSelect :: "string \<Rightarrow> app_state \<Rightarrow> app_state" where
  "toggleSelect symb st =
     st\<lparr>selected := (if symb \<in> selected st then selected st - {symb} else insert symb (selected st))\<rparr>"

subsection \<open>The fetch-trigger effect and the sorted rows\<close>



text \<open>
  \<open>obj[key]\<close> on an object built by a literal. The maps of the state hold the own
  properties. A key that is not an own property is looked up in \<open>Object.prototype\<close>,
  whose members are functions, or, for \<open>__proto__\<close>, an object: all of them truthy. The
  names are those of ECMAScript, its Annex B included.
\<close>

definition object_prototype_keys :: "string list" where
  "object_prototype_keys =
     [''constructor'', ''__defineGetter__'', ''__defineSetter__'', ''hasOwnProperty'',
      ''__lookupGetter__'', ''__lookupSetter__'', ''isPrototypeOf'', ''propertyIsEnumerable'',
      ''toString'', ''valueOf'', ''__proto__'', ''toLocaleString'']"

datatype 'a js_prop = Own 'a | Inherited | Undefined

definition js_get :: "(string \<rightharpoonup> 'a) \<Rightarrow> string \<Rightarrow> 'a js_prop" where
  "js_get obj k =
     (case obj k of
        Some v \<Rightarrow> Own v
      | None \<Rightarrow> if k \<in> set object_prototype_keys then Inherited else Undefined)"

text \<open>
  Lines 147-153. \<open>dataMap[a].latestClose\<close> as an operand of the comparator's \<open>-\<close>: the
  close of the snapshot; on an inherited member the read gives \<open>undefined\<close>, which is
  \<open>NaN\<close> as a number. On \<open>undefined\<close> the read would throw: the sort calls the comparator
  on members of the filtered list only (lemma \<open>js_sort_cong\<close> below), so this never
  happens and the last case is never used.
\<close>

definition row_close :: "app_state \<Rightarrow> string \<Rightarrow> jsnum" where
  "row_close st a =
     (case js_get (dataMap st) a of
        Own d \<Rightarrow> latestClose d
      | Inherited \<Rightarrow> NaN
      | Undefined \<Rightarrow> NaN)"

definition close_cmp :: "app_state \<Rightarrow> string \<Rightarrow> string \<Rightarrow> jsnum" where
  "close_cmp st a b =
     (if sortAsc st then js_sub (row_close st a) (row_close st b)
      else js_sub (row_close st b) (row_close st a))"

text \<open>The filter keeps a symbol when \<open>dataMap[sym]\<close> is truthy: a snapshot or an inherited member.\<close>

definition sorted_rows :: "app_state \<Rightarrow> string list" where
  "sorted_rows st =
     js_sort (close_cmp st) (filter (\<lambda>symb. js_get (dataMap st) symb \<noteq> Undefined) (symbols st))"

subsection \<open>Properties the statements below are phrased with\<close>

text \<open>Non-decreasing by timestamp, with the comparison JavaScript makes on numbers.\<close>

definition time_le :: "js_env \<Rightarrow> TimePoint \<Rightarrow> TimePoint \<Rightarrow> bool" where
  "time_le env a b = js_le (time_num env (time a)) (time_num env (time b))"

definition chronological :: "js_env \<Rightarrow> TimePoint list \<Rightarrow> bool" where
  "chronological env ps = sorted_wrt (time_le env) ps"

text \<open>
  The order the rows are meant to have: by latest close, non-decreasing when \<open>sortAsc\<close>
  holds and non-increasing otherwise. A symbol without a snapshot has no place in it.
\<close>

definition rows_le :: "app_state \<Rightarrow> string \<Rightarrow> string \<Rightarrow> bool" where
  "rows_le st a b =
     (case (dataMap st a, dataMap st b) of
        (Some da, Some db) \<Rightarrow>
          (if sortAsc st then js_le (latestClose da) (latestClose db)
           else js_le (latestClose db) (latestClose da))
      | _ \<Rightarrow> False)"

definition monotone_rows :: "app_state \<Rightarrow> string list \<Rightarrow> bool" where
  "monotone_rows st rows = sorted_wrt (rows_le st) rows"

text \<open>A time key the runtime reads as a date.\<close>

definition dated :: "js_env \<Rightarrow> string \<Rightarrow> bool" where
  "dated env t = (getTime env t \<noteq> None)"

text \<open>A symbol whose snapshot, if it has one, holds a latest close other than \<open>NaN\<close>.\<close>

definition priced :: "app_state \<Rightarrow> string \<Rightarrow> bool" where
  "priced st symb = (case dataMap st symb of None \<Rightarrow> True | Some d \<Rightarrow> latestClose d \<noteq> NaN)"

text \<open>
  A symbol for which \<open>dataMap[sym]\<close> is not an inherited member: it has a snapshot, or
  its name is not that of a member of \<open>Object.prototype\<close>.
\<close>

definition plain :: "app_state \<Rightarrow> string \<Rightarrow> bool" where
  "plain st symb = (js_get (dataMap st) symb \<noteq> Inherited)"

text \<open>
  The chronologically last and second-to-last samples of a series, as the specification
  speaks of them: the last two of its dated samples in ascending order of their times.
\<close>

definition time_key :: "js_env \<Rightarrow> TimePoint \<Rightarrow> int" where
  "time_key env p = (case getTime env (time p) of None \<Rightarrow> 0 | Some ms \<Rightarrow> ms)"

definition chronologically_last_two :: "js_env \<Rightarrow> TimePoint list \<Rightarrow> (TimePoint \<times> TimePoint) option" where
  "chronologically_last_two env ps =
     (case rev (sort_key (time_key env) (filter (\<lambda>p. dated env (time p)) ps)) of
        lastPoint # prevPoint # rest \<Rightarrow> Some (lastPoint, prevPoint)
      | _ \<Rightarrow> None)"




text \<open>
  The trimmed text the specification speaks of (\<open>String.prototype.trim\<close>); the component
  never calls it.
\<close>

definition is_space :: "char \<Rightarrow> bool" where
  "is_space c = (c \<in> {CHR '' '', CHR 0x09, CHR 0x0A, CHR 0x0B, CHR 0x0C, CHR 0x0D})"

definition js_trim :: "string \<Rightarrow> string" where
  "js_trim s = rev (dropWhile is_space (rev (dropWhile is_space s)))"

subsection \<open>Sample data\<close>

text \<open>
  A runtime that reads the three prices of the specification's scenario and three
  five-minute time keys; every other string is not a number, respectively not a date.
  Its arithmetic is that of IEEE 754 doubles on the operands the sample series lead to:
  the differences are exact there, \<open>1 / 100\<close> and \<open>-2 / 101\<close> are rounded to the nearest
  double, and so are their products with \<open>100\<close>, which are \<open>1\<close> and
  \<open>-1.9801980198019802\<close>. Every other quotient and product is left as \<open>NaN\<close>, as those
  with a \<open>NaN\<close> operand are.
\<close>

definition sample_div :: "jsnum \<Rightarrow> jsnum \<Rightarrow> jsnum" where
  "sample_div a b =
     (if a = Fin (- 2) \<and> b = Fin 101 then Fin (- (5707532201023995 / 288230376151711744))
      else if a = Fin 1 \<and> b = Fin 100 then Fin (5764607523034235 / 576460752303423488)
      else NaN)"

definition sample_mul :: "jsnum \<Rightarrow> jsnum \<Rightarrow> jsnum" where
  "sample_mul a b =
     (if a = Fin (- (5707532201023995 / 288230376151711744)) \<and> b = Fin 100
      then Fin (- (1114752383012499 / 562949953421312))
      else if a = Fin (5764607523034235 / 576460752303423488) \<and> b = Fin 100 then Fin 1
      else NaN)"

definition sample_env :: js_env where
  "sample_env =
     \<lparr>parseFloat = (\<lambda>s. case map_of [(''100.00'', Fin 100), (''101.00'', Fin 101),
                                        (''99.00'', Fin 99)] s of
                            Some v \<Rightarrow> v | None \<Rightarrow> NaN),
      getTime = map_of [(''2024-01-02 09:30:00'', 1704187800000),
                        (''2024-01-02 09:35:00'', 1704188100000),
                        (''2024-01-02 09:40:00'', 1704188400000)],
      typeErrorMessage = (\<lambda>site. ''Cannot read properties of undefined''),
      num_sub = js_sub, num_div = sample_div, num_mul = sample_mul\<rparr>"

definition scenario_series :: RawTimeSeries where
  "scenario_series =
     [(''2024-01-02 09:30:00'', Vals (Some ''100.00'')),
      (''2024-01-02 09:35:00'', Vals (Some ''101.00'')),
      (''2024-01-02 09:40:00'', Vals (Some ''99.00''))]"

definition rising_series :: RawTimeSeries where
  "rising_series =
     [(''2024-01-02 09:35:00'', Vals (Some ''101.00'')),
      (''2024-01-02 09:30:00'', Vals (Some ''100.00''))]"

definition unpriced_series :: RawTimeSeries where
  "unpriced_series =
     [(''2024-01-02 09:30:00'', Vals (Some ''100.00'')),
      (''2024-01-02 09:35:00'', Vals (Some ''N/A''))]"

definition undated_series :: RawTimeSeries where
  "undated_series =
     [(''2024-01-02 09:40:00'', Vals (Some ''99.00'')),
      (''n/a'', Vals (Some ''100.00'')),
      (''2024-01-02 09:35:00'', Vals (Some ''101.00''))]"

definition single_series :: RawTimeSeries where
  "single_series = [(''2024-01-02 09:30:00'', Vals (Some ''100.00''))]"

text \<open>
  Three tracked symbols, each fetched once: the latest closes are \<open>101\<close>, \<open>NaN\<close> and \<open>99\<close>.
\<close>

definition unpriced_state :: app_state where
  "unpriced_state =
     fetchStock sample_env ''IBM'' (Resolved (Body (Some scenario_series)))
       (fetchStock sample_env ''MSFT'' (Resolved (Body (Some unpriced_series)))
         (fetchStock sample_env ''AAPL'' (Resolved (Body (Some rising_series)))
           (handleAdd ''IBM'' (handleAdd ''MSFT'' initial_state))))"

definition scenario_points :: "TimePoint list" where
  "scenario_points =
     [\<lparr>time = ''2024-01-02 09:30:00'', close = Fin 100\<rparr>,
      \<lparr>time = ''2024-01-02 09:35:00'', close = Fin 101\<rparr>,
      \<lparr>time = ''2024-01-02 09:40:00'', close = Fin 99\<rparr>]"

definition scenario_snapshot :: StockData where
  "scenario_snapshot =
     \<lparr>symbol = ''AAPL'', latestClose = Fin 99,
      changePct = Fin (- (1114752383012499 / 562949953421312)),
      history = scenario_points\<rparr>"

definition undated_points :: "TimePoint list" where
  "undated_points =
     [\<lparr>time = ''2024-01-02 09:40:00'', close = Fin 99\<rparr>,
      \<lparr>time = ''n/a'', close = Fin 100\<rparr>,
      \<lparr>time = ''2024-01-02 09:35:00'', close = Fin 101\<rparr>]"

text \<open>The initial state after one successful fetch of its only symbol.\<close>

definition loaded_state :: app_state where
  "loaded_state =
     fetchStock sample_env ''AAPL'' (Resolved (Body (Some scenario_series))) initial_state"

text \<open>
  Three tracked symbols, two of them fetched: the latest closes are \<open>101\<close> and \<open>99\<close>.
\<close>

definition priced_state :: app_state where
  "priced_state =
     fetchStock sample_env ''MSFT'' (Resolved (Body (Some scenario_series)))
       (fetchStock sample_env ''AAPL'' (Resolved (Body (Some rising_series)))
         (handleAdd ''IBM'' (handleAdd ''MSFT'' initial_state)))"

text \<open>
  The loaded state with a second symbol added, named like a member of
  \<open>Object.prototype\<close>; no fetch is started for it.
\<close>

definition inherited_state :: app_state where
  "inherited_state = handleAdd ''toString'' loaded_state"


section \<open>Lemmas\<close>

subsection \<open>The sort\<close>

lemma mset_insert_by: "mset (insert_by cmp x ys) = add_mset x (mset ys)"
  by (induction ys) auto

lemma mset_js_sort: "mset (js_sort cmp xs) = mset xs"
  unfolding js_sort_def by (induction xs) (auto simp: mset_insert_by)

lemma set_js_sort: "set (js_sort cmp xs) = set xs"
  using mset_js_sort[of cmp xs] by (metis set_mset_mset)

lemma length_js_sort: "length (js_sort cmp xs) = length xs"
  using mset_js_sort[of cmp xs] by (metis size_mset)

text \<open>The sort applies the comparator to members of the list only.\<close>

lemma insert_by_cong:
  "(\<And>y. y \<in> set ys \<Longrightarrow> cmp x y = cmp' x y) \<Longrightarrow> insert_by cmp x ys = insert_by cmp' x ys"
  by (induction ys) auto

lemma js_sort_cong:
  "(\<And>x y. x \<in> set xs \<Longrightarrow> y \<in> set xs \<Longrightarrow> cmp x y = cmp' x y)
   \<Longrightarrow> js_sort cmp xs = js_sort cmp' xs"
proof (induction xs)
  case Nil
  then show ?case by (simp add: js_sort_def)
next
  case (Cons x xs)
  have ih: "js_sort cmp xs = js_sort cmp' xs" using Cons by simp
  have "insert_by cmp x (js_sort cmp' xs) = insert_by cmp' x (js_sort cmp' xs)"
    by (rule insert_by_cong) (simp add: set_js_sort Cons.prems)
  then show ?case using ih by (simp add: js_sort_def)
qed

text \<open>
  Where the comparator decides a transitive order \<open>le\<close> on the members (a positive
  result only when \<open>le y x\<close>, any other result only when \<open>le x y\<close>), the result is
  sorted by \<open>le\<close>.
\<close>

lemma sorted_wrt_insert_by:
  assumes "sorted_wrt le ys"
    and "\<And>y. y \<in> set ys \<Longrightarrow> js_pos (cmp x y) \<Longrightarrow> le y x"
    and "\<And>y. y \<in> set ys \<Longrightarrow> \<not> js_pos (cmp x y) \<Longrightarrow> le x y"
    and "\<And>a b c. a \<in> insert x (set ys) \<Longrightarrow> b \<in> insert x (set ys) \<Longrightarrow>
           c \<in> insert x (set ys) \<Longrightarrow> le a b \<Longrightarrow> le b c \<Longrightarrow> le a c"
  shows "sorted_wrt le (insert_by cmp x ys)"
  using assms
proof (induction ys)
  case Nil
  show ?case by simp
next
  case (Cons y ys)
  show ?case
  proof (cases "js_pos (cmp x y)")
    case True
    have s: "sorted_wrt le (insert_by cmp x ys)"
    proof (rule Cons.IH)
      show "sorted_wrt le ys" using Cons.prems(1) by simp
      show "\<And>z. z \<in> set ys \<Longrightarrow> js_pos (cmp x z) \<Longrightarrow> le z x"
        using Cons.prems(2) by simp
      show "\<And>z. z \<in> set ys \<Longrightarrow> \<not> js_pos (cmp x z) \<Longrightarrow> le x z"
        using Cons.prems(3) by simp
      fix a b c
      assume "a \<in> insert x (set ys)" "b \<in> insert x (set ys)" "c \<in> insert x (set ys)"
        and "le a b" "le b c"
      then show "le a c" using Cons.prems(4)[of a b c] by auto
    qed
    have "le y x" using Cons.prems(2) True by simp
    moreover have "\<forall>z\<in>set ys. le y z" using Cons.prems(1) by simp
    ultimately have "\<forall>z\<in>set (insert_by cmp x ys). le y z"
      using mset_insert_by[of cmp x ys] by (metis insert_iff set_mset_add_mset_insert set_mset_mset)
    then show ?thesis using True s by simp
  next
    case False
    have xy: "le x y" using Cons.prems(3) False by simp
    have "\<forall>z\<in>set ys. le x z"
    proof
      fix z assume z: "z \<in> set ys"
      then have "le y z" using Cons.prems(1) by simp
      then show "le x z" using Cons.prems(4)[of x y z] xy z by simp
    qed
    then show ?thesis using False xy Cons.prems(1) by simp
  qed
qed

lemma sorted_wrt_js_sort:
  assumes "\<And>x y. x \<in> set xs \<Longrightarrow> y \<in> set xs \<Longrightarrow> js_pos (cmp x y) \<Longrightarrow> le y x"
    and "\<And>x y. x \<in> set xs \<Longrightarrow> y \<in> set xs \<Longrightarrow> \<not> js_pos (cmp x y) \<Longrightarrow> le x y"
    and "\<And>a b c. a \<in> set xs \<Longrightarrow> b \<in> set xs \<Longrightarrow> c \<in> set xs \<Longrightarrow> le a b \<Longrightarrow> le b c \<Longrightarrow> le a c"
  shows "sorted_wrt le (js_sort cmp xs)"
  using assms
proof (induction xs)
  case Nil
  show ?case by (simp add: js_sort_def)
next
  case (Cons x xs)
  have ih: "sorted_wrt le (js_sort cmp xs)"
  proof (rule Cons.IH)
    fix a b assume "a \<in> set xs" "b \<in> set xs" "js_pos (cmp a b)"
    then show "le b a" using Cons.prems(1)[of a b] by simp
  next
    fix a b assume "a \<in> set xs" "b \<in> set xs" "\<not> js_pos (cmp a b)"
    then show "le a b" using Cons.prems(2)[of a b] by simp
  next
    fix a b c
    assume "a \<in> set xs" "b \<in> set xs" "c \<in> set xs" "le a b" "le b c"
    then show "le a c" using Cons.prems(3)[of a b c] by simp
  qed
  have "sorted_wrt le (insert_by cmp x (js_sort cmp xs))"
  proof (rule sorted_wrt_insert_by[OF ih])
    fix y assume "y \<in> set (js_sort cmp xs)" "js_pos (cmp x y)"
    then show "le y x" using Cons.prems(1)[of x y] by (simp add: set_js_sort)
  next
    fix y assume "y \<in> set (js_sort cmp xs)" "\<not> js_pos (cmp x y)"
    then show "le x y" using Cons.prems(2)[of x y] by (simp add: set_js_sort)
  next
    fix a b c
    assume "a \<in> insert x (set (js_sort cmp xs))" "b \<in> insert x (set (js_sort cmp xs))"
      "c \<in> insert x (set (js_sort cmp xs))" "le a b" "le b c"
    then show "le a c" using Cons.prems(3)[of a b c] by (simp add: set_js_sort)
  qed
  then show ?case by (simp add: js_sort_def)
qed

subsection \<open>Comparisons of numbers\<close>

lemma js_pos_sub_le: "a \<noteq> NaN \<Longrightarrow> b \<noteq> NaN \<Longrightarrow> js_pos (js_sub a b) \<Longrightarrow> js_le b a"
  by (cases a; cases b) auto

lemma not_js_pos_sub_le: "a \<noteq> NaN \<Longrightarrow> b \<noteq> NaN \<Longrightarrow> \<not> js_pos (js_sub a b) \<Longrightarrow> js_le a b"
  by (cases a; cases b) auto

lemma js_le_trans: "js_le a b \<Longrightarrow> js_le b c \<Longrightarrow> js_le a c"
  by (cases a; cases b; cases c) auto

lemma js_le_not_NaN: "js_le a b \<Longrightarrow> a \<noteq> NaN \<and> b \<noteq> NaN"
  by (cases a; cases b) auto

subsection \<open>The \<open>try\<close> block of \<open>fetchStock\<close>\<close>

lemma parse_points_Inl: "parse_points env raw = Inl e \<Longrightarrow> e = TypeError CloseOfVals"
  by (induction env raw rule: parse_points.induct) (auto split: sum.splits)

lemma parse_points_Inr:
  "parse_points env raw = Inr ps \<Longrightarrow> length ps = length raw \<and> map time ps = map fst raw"
  by (induction env raw arbitrary: ps rule: parse_points.induct) (auto split: sum.splits)

lemma js_index_last:
  "length xs = n \<Longrightarrow> js_index xs (int n - 1) = (if n = 0 then None else Some (last xs))"
  by (cases xs rule: rev_cases) (auto simp: js_index_def nth_append)

lemma js_index_prev:
  "length xs = n \<Longrightarrow>
   js_index xs (int n - 2) = (if n < 2 then None else Some (xs ! (n - 2)))"
  by (auto simp: js_index_def nat_diff_distrib)

lemma js_sort_eq_Nil: "(js_sort cmp xs = []) = (xs = [])"
  using length_js_sort[of cmp xs] by (metis length_0_conv)

lemma fetchStock_try_success:
  assumes "parse_points env rawSeries = Inr ps" and "2 \<le> length ps"
  shows "fetchStock_try env symb (Resolved (Body (Some rawSeries))) =
           Inr \<lparr>symbol = symb,
                latestClose = close (last (js_sort (time_cmp env) ps)),
                changePct =
                  num_mul env
                    (num_div env
                       (num_sub env (close (last (js_sort (time_cmp env) ps)))
                          (close (js_sort (time_cmp env) ps ! (length ps - 2))))
                       (close (js_sort (time_cmp env) ps ! (length ps - 2))))
                    (Fin 100),
                history = js_sort (time_cmp env) ps\<rparr>"
  using assms
  by (auto simp: fetchStock_try_def Let_def js_index_last js_index_prev length_js_sort
      js_sort_eq_Nil)

lemma fetchStock_try_Inr:
  assumes "fetchStock_try env symb res = Inr d"
  shows "\<exists>rawSeries ps. res = Resolved (Body (Some rawSeries)) \<and>
           parse_points env rawSeries = Inr ps \<and> 2 \<le> length ps"
  using assms
  by (auto simp: fetchStock_try_def Let_def js_index_last js_index_prev length_js_sort
      js_sort_eq_Nil split: response.splits body.splits option.splits sum.splits if_splits)

lemma fetchStock_try_short:
  assumes "length rawSeries < 2"
  shows "\<exists>site. fetchStock_try env symb (Resolved (Body (Some rawSeries))) = Inl (TypeError site)"
proof (cases "parse_points env rawSeries")
  case (Inl e)
  then show ?thesis using parse_points_Inl[OF Inl] by (simp add: fetchStock_try_def)
next
  case (Inr ps)
  then have "length ps < 2" using parse_points_Inr[OF Inr] assms by simp
  then show ?thesis using Inr
    by (simp add: fetchStock_try_def Let_def js_index_last js_index_prev length_js_sort)
qed



subsection \<open>Timestamps and rows\<close>

lemma time_num_dated: "dated env t \<Longrightarrow> time_num env t \<noteq> NaN"
  by (auto simp: dated_def time_num_def)

lemma chronological_js_sort:
  assumes "list_all (dated env) (map time ps)"
  shows "chronological env (js_sort (time_cmp env) ps)"
  unfolding chronological_def
proof (rule sorted_wrt_js_sort)
  have ok: "time_num env (time p) \<noteq> NaN" if "p \<in> set ps" for p
    using assms that by (simp add: list_all_iff time_num_dated)
  {
    fix x y assume "x \<in> set ps" "y \<in> set ps" "js_pos (time_cmp env x y)"
    then show "time_le env y x"
      using ok[of x] ok[of y] by (simp add: time_le_def time_cmp_def js_pos_sub_le)
  next
    fix x y assume "x \<in> set ps" "y \<in> set ps" "\<not> js_pos (time_cmp env x y)"
    then show "time_le env x y"
      using ok[of x] ok[of y] by (simp add: time_le_def time_cmp_def not_js_pos_sub_le)
  next
    fix a b c assume "time_le env a b" "time_le env b c"
    then show "time_le env a c" unfolding time_le_def by (rule js_le_trans)
  }
qed

lemma rows_le_trans: "rows_le st a b \<Longrightarrow> rows_le st b c \<Longrightarrow> rows_le st a c"
  by (auto simp: rows_le_def split: option.splits if_splits intro: js_le_trans)

text \<open>
  The rows depend on the comparator only where \<open>dataMap[sym]\<close> is defined for both
  symbols.
\<close>

lemma sorted_rows_cong:
  assumes "\<And>a b. js_get (dataMap st) a \<noteq> Undefined \<Longrightarrow> js_get (dataMap st) b \<noteq> Undefined \<Longrightarrow>
             cmp a b = close_cmp st a b"
  shows "sorted_rows st =
           js_sort cmp (filter (\<lambda>symb. js_get (dataMap st) symb \<noteq> Undefined) (symbols st))"
  unfolding sorted_rows_def
  by (rule js_sort_cong) (simp add: assms)

lemma js_get_defined:
  "(js_get obj k \<noteq> Undefined) = (obj k \<noteq> None \<or> k \<in> set object_prototype_keys)"
  by (simp add: js_get_def split: option.splits)

lemma js_get_plain:
  "js_get obj k \<noteq> Inherited \<Longrightarrow> (js_get obj k \<noteq> Undefined) = (obj k \<noteq> None)"
  by (simp add: js_get_def split: option.splits if_splits)

lemma row_close_Some: "dataMap st a = Some d \<Longrightarrow> row_close st a = latestClose d"
  by (simp add: row_close_def js_get_def)

subsection \<open>The sort by timestamp as a sort by key\<close>

lemma time_cmp_pos:
  assumes "dated env (time x)" and "dated env (time y)"
  shows "js_pos (time_cmp env x y) = (\<not> time_key env x \<le> time_key env y)"
  using assms by (auto simp: dated_def time_cmp_def time_num_def time_key_def)

lemma insert_by_insort_key:
  assumes "dated env (time x)" and "list_all (\<lambda>p. dated env (time p)) ys"
  shows "insert_by (time_cmp env) x ys = insort_key (time_key env) x ys"
  using assms by (induction ys) (auto simp: time_cmp_pos)

lemma js_sort_sort_key:
  assumes "list_all (\<lambda>p. dated env (time p)) ps"
  shows "js_sort (time_cmp env) ps = sort_key (time_key env) ps"
  using assms
proof (induction ps)
  case Nil
  show ?case by (simp add: js_sort_def)
next
  case (Cons p ps)
  have ih: "js_sort (time_cmp env) ps = sort_key (time_key env) ps"
    using Cons by simp
  have "list_all (\<lambda>q. dated env (time q)) (sort_key (time_key env) ps)"
    using Cons.prems by (simp add: list_all_iff)
  then have "insert_by (time_cmp env) p (sort_key (time_key env) ps) =
               insort_key (time_key env) p (sort_key (time_key env) ps)"
    using Cons.prems by (intro insert_by_insort_key) simp_all
  then show ?case using ih by (simp add: js_sort_def)
qed

lemma rev_last_two:
  assumes "2 \<le> length h"
  shows "\<exists>rest. rev h = last h # h ! (length h - 2) # rest"
proof -
  obtain xs a b where h: "h = xs @ [a, b]"
  proof (cases h rule: rev_cases)
    case Nil
    then show ?thesis using assms by simp
  next
    case (snoc ys b)
    then have "ys \<noteq> []" using assms by auto
    then obtain xs a where "ys = xs @ [a]" by (cases ys rule: rev_cases) auto
    then show ?thesis using snoc that by simp
  qed
  then show ?thesis by (simp add: nth_append)
qed

lemma chronologically_last_two_sorted:
  assumes "list_all (dated env) (map time ps)" and "2 \<le> length ps"
    and "h = js_sort (time_cmp env) ps"
  shows "chronologically_last_two env ps = Some (last h, h ! (length h - 2))"
proof -
  have d: "list_all (\<lambda>p. dated env (time p)) ps"
    using assms(1) by (simp add: list_all_iff)
  then have f: "filter (\<lambda>p. dated env (time p)) ps = ps"
    by (simp add: list_all_iff)
  have h: "h = sort_key (time_key env) ps"
    using assms(3) js_sort_sort_key[OF d] by simp
  have "2 \<le> length h" using assms(2) h by simp
  then obtain rest where "rev h = last h # h ! (length h - 2) # rest"
    using rev_last_two by blast
  then have r: "rev (sort_key (time_key env) ps) = last h # h ! (length h - 2) # rest"
    using h by simp
  show ?thesis unfolding chronologically_last_two_def f r by simp
qed

subsection \<open>State after \<open>fetchStock\<close>\<close>


lemma fetchStock_fields:
  "symbols (fetchStock env symb res st) = symbols st"
  "sortAsc (fetchStock env symb res st) = sortAsc st"
  by (simp_all add: fetchStock_def fetchStock_complete_def fetchStock_start_def Let_def
      split: sum.splits)

lemma dataMap_fetchStock:
  "dataMap (fetchStock env symb res st) =
     (case fetchStock_try env symb res of
        Inr d \<Rightarrow> (dataMap st)(symb \<mapsto> d)
      | Inl e \<Rightarrow> (dataMap st)(symb := None))"
  by (simp add: fetchStock_def fetchStock_complete_def fetchStock_start_def Let_def
      split: sum.splits)

subsection \<open>The sample data\<close>

lemma parse_scenario_series: "parse_points sample_env scenario_series = Inr scenario_points"
  by (simp add: scenario_series_def scenario_points_def sample_env_def)

lemma sort_scenario_points: "js_sort (time_cmp sample_env) scenario_points = scenario_points"
  by (simp add: js_sort_def time_cmp_def time_num_def sample_env_def scenario_points_def)

lemma try_scenario_series:
  "fetchStock_try sample_env ''AAPL'' (Resolved (Body (Some scenario_series))) = Inr scenario_snapshot"
  using fetchStock_try_success[OF parse_scenario_series, of "''AAPL''"]
  by (simp add: sort_scenario_points)
    (simp add: scenario_points_def scenario_snapshot_def sample_env_def sample_div_def
      sample_mul_def)

lemma dated_scenario: "list_all (dated sample_env) (map fst scenario_series)"
  by (simp add: dated_def sample_env_def scenario_series_def)

lemma try_undated_series:
  "fetchStock_try sample_env ''AAPL'' (Resolved (Body (Some undated_series))) =
     Inr \<lparr>symbol = ''AAPL'', latestClose = Fin 101, changePct = Fin 1, history = undated_points\<rparr>"
proof -
  have p: "parse_points sample_env undated_series = Inr undated_points"
    by (simp add: undated_series_def undated_points_def sample_env_def)
  have s: "js_sort (time_cmp sample_env) undated_points = undated_points"
    by (simp add: js_sort_def time_cmp_def time_num_def sample_env_def undated_points_def)
  show ?thesis
    using fetchStock_try_success[OF p, of "''AAPL''"]
    by (simp add: s)
      (simp add: undated_points_def sample_env_def sample_div_def sample_mul_def)
qed

lemma try_scenario_any:
  "fetchStock_try sample_env symb (Resolved (Body (Some scenario_series))) =
     Inr \<lparr>symbol = symb, latestClose = Fin 99,
          changePct = Fin (- (1114752383012499 / 562949953421312)),
          history = scenario_points\<rparr>"
  using fetchStock_try_success[OF parse_scenario_series, of symb]
  by (simp add: sort_scenario_points)
    (simp add: scenario_points_def sample_env_def sample_div_def sample_mul_def)

lemma try_rising_series:
  "fetchStock_try sample_env symb (Resolved (Body (Some rising_series))) =
     Inr \<lparr>symbol = symb, latestClose = Fin 101, changePct = Fin 1,
          history = [\<lparr>time = ''2024-01-02 09:30:00'', close = Fin 100\<rparr>,
                     \<lparr>time = ''2024-01-02 09:35:00'', close = Fin 101\<rparr>]\<rparr>"
proof -
  have p: "parse_points sample_env rising_series =
             Inr [\<lparr>time = ''2024-01-02 09:35:00'', close = Fin 101\<rparr>,
                  \<lparr>time = ''2024-01-02 09:30:00'', close = Fin 100\<rparr>]"
    by (simp add: rising_series_def sample_env_def)
  have s: "js_sort (time_cmp sample_env)
             [\<lparr>time = ''2024-01-02 09:35:00'', close = Fin 101\<rparr>,
              \<lparr>time = ''2024-01-02 09:30:00'', close = Fin 100\<rparr>] =
             [\<lparr>time = ''2024-01-02 09:30:00'', close = Fin 100\<rparr>,
              \<lparr>time = ''2024-01-02 09:35:00'', close = Fin 101\<rparr>]"
    by (simp add: js_sort_def time_cmp_def time_num_def sample_env_def)
  show ?thesis
    using fetchStock_try_success[OF p, of symb]
    by (simp add: s) (simp add: sample_env_def sample_div_def sample_mul_def)
qed

lemma try_unpriced_series:
  "fetchStock_try sample_env symb (Resolved (Body (Some unpriced_series))) =
     Inr \<lparr>symbol = symb, latestClose = NaN, changePct = NaN,
          history = [\<lparr>time = ''2024-01-02 09:30:00'', close = Fin 100\<rparr>,
                     \<lparr>time = ''2024-01-02 09:35:00'', close = NaN\<rparr>]\<rparr>"
proof -
  have p: "parse_points sample_env unpriced_series =
             Inr [\<lparr>time = ''2024-01-02 09:30:00'', close = Fin 100\<rparr>,
                  \<lparr>time = ''2024-01-02 09:35:00'', close = NaN\<rparr>]"
    by (simp add: unpriced_series_def sample_env_def)
  have s: "js_sort (time_cmp sample_env)
             [\<lparr>time = ''2024-01-02 09:30:00'', close = Fin 100\<rparr>,
              \<lparr>time = ''2024-01-02 09:35:00'', close = NaN\<rparr>] =
             [\<lparr>time = ''2024-01-02 09:30:00'', close = Fin 100\<rparr>,
              \<lparr>time = ''2024-01-02 09:35:00'', close = NaN\<rparr>]"
    by (simp add: js_sort_def time_cmp_def time_num_def sample_env_def)
  show ?thesis
    using fetchStock_try_success[OF p, of symb]
    by (simp add: s) (simp add: sample_env_def sample_div_def sample_mul_def)
qed

lemma symbols_added:
  "symbols (handleAdd ''IBM'' (handleAdd ''MSFT'' initial_state)) = [''AAPL'', ''MSFT'', ''IBM'']"
  "sortAsc (handleAdd ''IBM'' (handleAdd ''MSFT'' initial_state))"
  "dataMap (handleAdd ''IBM'' (handleAdd ''MSFT'' initial_state)) = Map.empty"
  by (simp_all add: handleAdd_def initial_state_def Let_def)

lemma unpriced_state_fields:
  "symbols unpriced_state = [''AAPL'', ''MSFT'', ''IBM'']"
  "sortAsc unpriced_state"
  "map_option latestClose (dataMap unpriced_state ''AAPL'') = Some (Fin 101)"
  "map_option latestClose (dataMap unpriced_state ''MSFT'') = Some NaN"
  "map_option latestClose (dataMap unpriced_state ''IBM'') = Some (Fin 99)"
  by (simp_all add: unpriced_state_def fetchStock_fields dataMap_fetchStock symbols_added
      try_scenario_any try_rising_series try_unpriced_series)

lemma priced_state_fields:
  "symbols priced_state = [''AAPL'', ''MSFT'', ''IBM'']"
  "sortAsc priced_state"
  "map_option latestClose (dataMap priced_state ''AAPL'') = Some (Fin 101)"
  "map_option latestClose (dataMap priced_state ''MSFT'') = Some (Fin 99)"
  "dataMap priced_state ''IBM'' = None"
  by (simp_all add: priced_state_def fetchStock_fields dataMap_fetchStock symbols_added
      try_scenario_any try_rising_series)

lemma inherited_state_fields:
  "symbols inherited_state = [''AAPL'', ''toString'']"
  "sortAsc inherited_state"
  "dataMap inherited_state ''AAPL'' = Some scenario_snapshot"
  "dataMap inherited_state ''toString'' = None"
  by (simp_all add: inherited_state_def loaded_state_def handleAdd_def Let_def fetchStock_fields
      dataMap_fetchStock try_scenario_series initial_state_def)

lemma parse_undated_series: "parse_points sample_env undated_series = Inr undated_points"
  by (simp add: undated_series_def undated_points_def sample_env_def)

lemma scenario_changePct:
  "num_mul sample_env (num_div sample_env (num_sub sample_env (Fin 99) (Fin 101)) (Fin 101))
     (Fin 100) = Fin (- (1114752383012499 / 562949953421312))"
  by (simp add: sample_env_def sample_div_def sample_mul_def)

section \<open>The claims\<close>

subsection \<open>C1: the percent change\<close>

text \<open>
  C1, as the code has it. Let the payload parse to at least two samples whose time keys
  are all dates, and let \<open>h\<close> be the samples after the sort. The fetch succeeds and
  stores a snapshot whose \<open>changePct\<close> is \<open>(last.close - prev.close) / prev.close * 100\<close>,
  in the arithmetic of the runtime, and whose \<open>latestClose\<close> is \<open>last.close\<close>, where
  \<open>last\<close> and \<open>prev\<close> are the last and the second-to-last element of \<open>h\<close>. These are
  the chronologically last and second-to-last samples: \<open>h\<close> holds the parsed samples,
  each as often as it was parsed, in ascending order of time.
\<close>

theorem changePct_from_last_two:
  assumes "parse_points env rawSeries = Inr ps" and "2 \<le> length ps"
    and "list_all (dated env) (map time ps)"
    and "h = js_sort (time_cmp env) ps"
  shows "dataMap (fetchStock_complete env symb (Resolved (Body (Some rawSeries))) st) symb =
           Some \<lparr>symbol = symb,
                 latestClose = close (last h),
                 changePct =
                   num_mul env
                     (num_div env (num_sub env (close (last h)) (close (h ! (length h - 2))))
                        (close (h ! (length h - 2))))
                     (Fin 100),
                 history = h\<rparr> \<and>
         chronologically_last_two env ps = Some (last h, h ! (length h - 2)) \<and>
         mset h = mset ps \<and>
         chronological env h"
proof -
  have "fetchStock_try env symb (Resolved (Body (Some rawSeries))) =
          Inr \<lparr>symbol = symb,
               latestClose = close (last h),
               changePct =
                 num_mul env
                   (num_div env (num_sub env (close (last h)) (close (h ! (length h - 2))))
                      (close (h ! (length h - 2))))
                   (Fin 100),
               history = h\<rparr>"
    using fetchStock_try_success[OF assms(1,2), of symb] assms(4)
    by (simp add: length_js_sort)
  then show ?thesis
    using chronological_js_sort[OF assms(3)] chronologically_last_two_sorted[OF assms(3,2,4)]
      assms(4)
    by (simp add: fetchStock_complete_def Let_def mset_js_sort)
qed

text \<open>
  Witness for C1, the scenario of the specification: closes \<open>100.00\<close>, \<open>101.00\<close>, \<open>99.00\<close>
  at ascending times give \<open>latestClose = 99\<close> and
  \<open>changePct = ((99 - 101) / 101) * 100\<close>, the double \<open>-1.9801980198019802\<close>.
\<close>

theorem changePct_from_last_two_witness:
  "parse_points sample_env scenario_series = Inr scenario_points \<and>
   2 \<le> length scenario_points \<and>
   list_all (dated sample_env) (map time scenario_points) \<and>
   scenario_points = js_sort (time_cmp sample_env) scenario_points \<and>
   dataMap (fetchStock_complete sample_env ''AAPL'' (Resolved (Body (Some scenario_series)))
      initial_state) ''AAPL'' =
     Some \<lparr>symbol = ''AAPL'', latestClose = Fin 99,
           changePct =
             num_mul sample_env
               (num_div sample_env (num_sub sample_env (Fin 99) (Fin 101)) (Fin 101)) (Fin 100),
           history = scenario_points\<rparr> \<and>
   num_mul sample_env (num_div sample_env (num_sub sample_env (Fin 99) (Fin 101)) (Fin 101))
     (Fin 100) = Fin (- (1114752383012499 / 562949953421312)) \<and>
   chronologically_last_two sample_env scenario_points =
     Some (\<lparr>time = ''2024-01-02 09:40:00'', close = Fin 99\<rparr>,
           \<lparr>time = ''2024-01-02 09:35:00'', close = Fin 101\<rparr>) \<and>
   chronological sample_env scenario_points"
proof -
  have l: "2 \<le> length scenario_points" by (simp add: scenario_points_def)
  have d: "list_all (dated sample_env) (map time scenario_points)"
    by (simp add: scenario_points_def dated_def sample_env_def)
  have v: "last scenario_points = \<lparr>time = ''2024-01-02 09:40:00'', close = Fin 99\<rparr>"
    "scenario_points ! (length scenario_points - 2) =
       \<lparr>time = ''2024-01-02 09:35:00'', close = Fin 101\<rparr>"
    by (simp_all add: scenario_points_def)
  show ?thesis
    using changePct_from_last_two[OF parse_scenario_series l d sort_scenario_points[symmetric],
        of "''AAPL''" initial_state]
      parse_scenario_series l d sort_scenario_points scenario_changePct
    by (simp add: v)
qed

text \<open>
  C1 as stated fails where a time key is not a date. The series with closes \<open>99\<close> at
  09:40, \<open>100\<close> at a key that is no date, and \<open>101\<close> at 09:35 parses to three samples;
  the comparator is \<open>NaN\<close> against the undated sample and the three stay in this order.
  The fetch succeeds and stores \<open>latestClose = 101\<close> and \<open>changePct = 1\<close>, from the
  samples of 09:35 and of no date, while the chronologically last two samples, of 09:40
  and 09:35, give \<open>((99 - 101) / 101) * 100\<close>.
\<close>

theorem changePct_not_from_last_two:
  "parse_points sample_env undated_series = Inr undated_points \<and>
   dataMap (fetchStock sample_env ''AAPL'' (Resolved (Body (Some undated_series))) initial_state)
     ''AAPL'' =
     Some \<lparr>symbol = ''AAPL'', latestClose = Fin 101, changePct = Fin 1,
           history = undated_points\<rparr> \<and>
   chronologically_last_two sample_env undated_points =
     Some (\<lparr>time = ''2024-01-02 09:40:00'', close = Fin 99\<rparr>,
           \<lparr>time = ''2024-01-02 09:35:00'', close = Fin 101\<rparr>) \<and>
   num_mul sample_env (num_div sample_env (num_sub sample_env (Fin 99) (Fin 101)) (Fin 101))
     (Fin 100) = Fin (- (1114752383012499 / 562949953421312)) \<and>
   Fin 1 \<noteq> Fin (- (1114752383012499 / 562949953421312))"
proof -
  have c: "chronologically_last_two sample_env undated_points =
             Some (\<lparr>time = ''2024-01-02 09:40:00'', close = Fin 99\<rparr>,
                   \<lparr>time = ''2024-01-02 09:35:00'', close = Fin 101\<rparr>)"
    by (simp add: chronologically_last_two_def undated_points_def dated_def time_key_def
        sample_env_def)
  have s: "dataMap (fetchStock sample_env ''AAPL'' (Resolved (Body (Some undated_series)))
             initial_state) ''AAPL'' =
             Some \<lparr>symbol = ''AAPL'', latestClose = Fin 101, changePct = Fin 1,
                   history = undated_points\<rparr>"
    by (simp add: dataMap_fetchStock try_undated_series)
  show ?thesis using parse_undated_series s c scenario_changePct by simp
qed

subsection \<open>C2: the sorted rows\<close>

text \<open>
  C2, as the code has it. For every state the sorted rows are exactly the tracked symbols
  for which \<open>dataMap[sym]\<close> is truthy, each as often as it is tracked: those that have a
  snapshot and those named like a member of \<open>Object.prototype\<close>. When no tracked symbol
  without a snapshot has such a name, they are exactly the tracked symbols that have a
  snapshot. When moreover no snapshot of a tracked symbol has the latest close \<open>NaN\<close>,
  the latest closes along the rows are non-decreasing if \<open>sortAsc\<close> holds and
  non-increasing otherwise.
\<close>

theorem sorted_rows_monotone:
  "set (sorted_rows st) =
     {symb \<in> set (symbols st). dataMap st symb \<noteq> None \<or> symb \<in> set object_prototype_keys} \<and>
   mset (sorted_rows st) =
     mset (filter (\<lambda>symb. dataMap st symb \<noteq> None \<or> symb \<in> set object_prototype_keys)
             (symbols st)) \<and>
   (list_all (plain st) (symbols st) \<longrightarrow>
      set (sorted_rows st) = {symb \<in> set (symbols st). dataMap st symb \<noteq> None} \<and>
      mset (sorted_rows st) = mset (filter (\<lambda>symb. dataMap st symb \<noteq> None) (symbols st))) \<and>
   (list_all (plain st) (symbols st) \<and> list_all (priced st) (symbols st) \<longrightarrow>
      monotone_rows st (sorted_rows st))"
proof -
  let ?xs = "filter (\<lambda>symb. js_get (dataMap st) symb \<noteq> Undefined) (symbols st)"
  have rows: "sorted_rows st = js_sort (close_cmp st) ?xs"
    by (simp add: sorted_rows_def)
  have all: "?xs =
      filter (\<lambda>symb. dataMap st symb \<noteq> None \<or> symb \<in> set object_prototype_keys) (symbols st)"
    by (simp add: js_get_defined)
  have own: "?xs = filter (\<lambda>symb. dataMap st symb \<noteq> None) (symbols st)"
    if "list_all (plain st) (symbols st)"
    using that by (intro filter_cong) (auto simp: list_all_iff plain_def js_get_plain)
  have mono: "monotone_rows st (sorted_rows st)"
    if pl: "list_all (plain st) (symbols st)" and pr: "list_all (priced st) (symbols st)"
  proof -
    have sn: "\<exists>d. dataMap st x = Some d \<and> latestClose d \<noteq> NaN" if "x \<in> set ?xs" for x
    proof -
      have "x \<in> set (symbols st)" "dataMap st x \<noteq> None"
        using that own[OF pl] by auto
      then show ?thesis using pr by (auto simp: list_all_iff priced_def)
    qed
    have "sorted_wrt (rows_le st) (js_sort (close_cmp st) ?xs)"
    proof (rule sorted_wrt_js_sort)
      fix x y assume "x \<in> set ?xs" "y \<in> set ?xs" "js_pos (close_cmp st x y)"
      then show "rows_le st y x"
        using sn[of x] sn[of y]
        by (auto simp: rows_le_def close_cmp_def row_close_Some intro: js_pos_sub_le
            split: if_splits)
    next
      fix x y assume "x \<in> set ?xs" "y \<in> set ?xs" "\<not> js_pos (close_cmp st x y)"
      then show "rows_le st x y"
        using sn[of x] sn[of y]
        by (auto simp: rows_le_def close_cmp_def row_close_Some intro: not_js_pos_sub_le
            split: if_splits)
    next
      fix a b c assume "rows_le st a b" "rows_le st b c"
      then show "rows_le st a c" by (rule rows_le_trans)
    qed
    then show ?thesis by (simp add: monotone_rows_def rows)
  qed
  have m: "mset (sorted_rows st) = mset ?xs" by (simp add: rows mset_js_sort)
  have s: "set (sorted_rows st) = set ?xs" by (simp add: rows set_js_sort)
  have "set (sorted_rows st) =
      {symb \<in> set (symbols st). dataMap st symb \<noteq> None \<or> symb \<in> set object_prototype_keys}"
    using s all by auto
  moreover have "mset (sorted_rows st) =
      mset (filter (\<lambda>symb. dataMap st symb \<noteq> None \<or> symb \<in> set object_prototype_keys)
              (symbols st))"
    using m all by simp
  moreover have "set (sorted_rows st) = {symb \<in> set (symbols st). dataMap st symb \<noteq> None}"
    if "list_all (plain st) (symbols st)"
    using s own[OF that] by auto
  moreover have "mset (sorted_rows st) =
      mset (filter (\<lambda>symb. dataMap st symb \<noteq> None) (symbols st))"
    if "list_all (plain st) (symbols st)"
    using m own[OF that] by simp
  ultimately show ?thesis using mono by blast
qed

text \<open>
  Witness for C2: closes \<open>101\<close> (AAPL) and \<open>99\<close> (MSFT), a third symbol not yet
  fetched, ascending sort.
\<close>

theorem sorted_rows_monotone_witness:
  "list_all (plain priced_state) (symbols priced_state) \<and>
   list_all (priced priced_state) (symbols priced_state) \<and>
   sorted_rows priced_state = [''MSFT'', ''AAPL''] \<and>
   set [''MSFT'', ''AAPL''] =
     {symb \<in> set (symbols priced_state). dataMap priced_state symb \<noteq> None} \<and>
   monotone_rows priced_state [''MSFT'', ''AAPL'']"
proof -
  obtain a m where d: "dataMap priced_state ''AAPL'' = Some a" "latestClose a = Fin 101"
    "dataMap priced_state ''MSFT'' = Some m" "latestClose m = Fin 99"
    using priced_state_fields(3,4) by auto
  have pl: "list_all (plain priced_state) (symbols priced_state)"
    by (simp add: plain_def js_get_def object_prototype_keys_def priced_state_fields(1,5) d)
  have pr: "list_all (priced priced_state) (symbols priced_state)"
    by (simp add: priced_def priced_state_fields(1,5) d)
  have s: "sorted_rows priced_state = [''MSFT'', ''AAPL'']"
    by (simp add: sorted_rows_def priced_state_fields(1,2,5) d js_sort_def close_cmp_def
        row_close_def js_get_def object_prototype_keys_def)
  have "set (sorted_rows priced_state) =
          {symb \<in> set (symbols priced_state). dataMap priced_state symb \<noteq> None}"
    and "monotone_rows priced_state (sorted_rows priced_state)"
    using sorted_rows_monotone[of priced_state] pl pr by blast+
  then show ?thesis using pl pr s by simp
qed

text \<open>
  C2 as stated fails in two ways. Where a stored latest close is \<open>NaN\<close>, which
  \<open>parseFloat\<close> returns for a close that is not a number, the closes are not monotonic:
  three symbols fetched with latest closes \<open>101\<close>, \<open>NaN\<close> and \<open>99\<close> stay in this order
  under the ascending sort. And a tracked symbol named \<open>toString\<close> is among the rows
  without a snapshot.
\<close>

theorem sorted_rows_not_monotone:
  "sorted_rows unpriced_state = [''AAPL'', ''MSFT'', ''IBM''] \<and>
   map_option latestClose (dataMap unpriced_state ''AAPL'') = Some (Fin 101) \<and>
   map_option latestClose (dataMap unpriced_state ''MSFT'') = Some NaN \<and>
   map_option latestClose (dataMap unpriced_state ''IBM'') = Some (Fin 99) \<and>
   \<not> monotone_rows unpriced_state (sorted_rows unpriced_state) \<and>
   sorted_rows inherited_state = [''AAPL'', ''toString''] \<and>
   dataMap inherited_state ''toString'' = None"
proof -
  obtain a m i where d: "dataMap unpriced_state ''AAPL'' = Some a" "latestClose a = Fin 101"
    "dataMap unpriced_state ''MSFT'' = Some m" "latestClose m = NaN"
    "dataMap unpriced_state ''IBM'' = Some i" "latestClose i = Fin 99"
    using unpriced_state_fields(3-5) by auto
  have s: "sorted_rows unpriced_state = [''AAPL'', ''MSFT'', ''IBM'']"
    by (simp add: sorted_rows_def unpriced_state_fields(1,2) d js_sort_def close_cmp_def
        row_close_def js_get_def)
  have "\<not> monotone_rows unpriced_state [''AAPL'', ''MSFT'', ''IBM'']"
    by (simp add: monotone_rows_def rows_le_def d unpriced_state_fields(2))
  moreover have "sorted_rows inherited_state = [''AAPL'', ''toString'']"
    by (simp add: sorted_rows_def inherited_state_fields js_sort_def close_cmp_def
        row_close_def js_get_def object_prototype_keys_def scenario_snapshot_def)
  ultimately show ?thesis using s unpriced_state_fields(3-5) inherited_state_fields(4) by simp
qed

subsection \<open>C3: a failed fetch\<close>



subsection \<open>C4: fewer than two samples\<close>

text \<open>
  C4, as the code has it. With fewer than two samples in the series the percent change
  is never computed: reading \<open>close\<close> of the missing sample (or of a \<open>null\<close> entry)
  throws a \<open>TypeError\<close>, the handler of \<open>fetchStock\<close> catches it, and the fetch ends as
  a failed one, with no snapshot for the symbol and the \<open>TypeError\<close>'s message as its
  error.
\<close>

theorem short_series_fails:
  assumes "length rawSeries < 2"
  shows "\<exists>site.
           fetchStock_try env symb (Resolved (Body (Some rawSeries))) = Inl (TypeError site) \<and>
           dataMap (fetchStock_complete env symb (Resolved (Body (Some rawSeries))) st) symb =
             None \<and>
           errorMap (fetchStock_complete env symb (Resolved (Body (Some rawSeries))) st) symb =
             Some (typeErrorMessage env site)"
proof -
  obtain site where
    "fetchStock_try env symb (Resolved (Body (Some rawSeries))) = Inl (TypeError site)"
    using fetchStock_try_short[OF assms] by blast
  then show ?thesis by (simp add: fetchStock_complete_def Let_def)
qed

text \<open>Witness for C4: a series of one sample.\<close>

theorem short_series_fails_witness:
  "length single_series < 2 \<and>
   dataMap (fetchStock_complete sample_env ''AAPL'' (Resolved (Body (Some single_series)))
      initial_state) ''AAPL'' = None \<and>
   errorMap (fetchStock_complete sample_env ''AAPL'' (Resolved (Body (Some single_series)))
      initial_state) ''AAPL'' = Some ''Cannot read properties of undefined''"
proof -
  have l: "length single_series < 2" by (simp add: single_series_def)
  have m: "typeErrorMessage sample_env site = ''Cannot read properties of undefined''" for site
    by (simp add: sample_env_def)
  show ?thesis
    using short_series_fails[OF l, of sample_env "''AAPL''" initial_state] l
    by (auto simp: m)
qed

text \<open>
  C4 as stated fails: after a fetch that returns one sample, for a symbol that had a
  snapshot, no snapshot (and so no \<open>changePct\<close>) is stored and the symbol has an error
  message.
\<close>

theorem short_series_not_stored:
  "dataMap (fetchStock sample_env ''AAPL'' (Resolved (Body (Some single_series))) loaded_state)
     ''AAPL'' = None \<and>
   errorMap (fetchStock sample_env ''AAPL'' (Resolved (Body (Some single_series))) loaded_state)
     ''AAPL'' = Some ''Cannot read properties of undefined''"
proof -
  have "fetchStock_try sample_env ''AAPL'' (Resolved (Body (Some single_series))) =
          Inl (TypeError CloseOfPrev)"
    by (simp add: fetchStock_try_def single_series_def js_sort_def js_index_def Let_def)
  then show ?thesis
    by (simp add: fetchStock_def fetchStock_complete_def Let_def sample_env_def)
qed

subsection \<open>C5: retries\<close>




subsection \<open>C6: the query\<close>

text \<open>
  C6, as the code has it. \<open>handleQueryChange\<close> stores the text as typed and sends a
  suggestion request, with that text, exactly when the length of the text as typed
  (not trimmed) is at least 2; the suggestions then stay as they are until the response
  arrives. When the length is below 2 it empties the suggestion list and sends nothing.
\<close>

theorem handleQueryChange_length:
  "query (fst (handleQueryChange v st)) = v \<and>
   (snd (handleQueryChange v st) = Some v \<longleftrightarrow> 2 \<le> length v) \<and>
   (2 \<le> length v \<longrightarrow> suggestions (fst (handleQueryChange v st)) = suggestions st) \<and>
   (length v < 2 \<longrightarrow>
      suggestions (fst (handleQueryChange v st)) = [] \<and> snd (handleQueryChange v st) = None)"
  by (simp add: handleQueryChange_def)

text \<open>Witness for C6: the queries \<open>app\<close> and \<open>a\<close>.\<close>

theorem handleQueryChange_length_witness:
  "2 \<le> length ''app'' \<and> snd (handleQueryChange ''app'' initial_state) = Some ''app'' \<and>
   length ''a'' < 2 \<and> snd (handleQueryChange ''a'' initial_state) = None \<and>
   suggestions (fst (handleQueryChange ''a'' initial_state)) = []"
  using handleQueryChange_length[of "''app''" initial_state]
    handleQueryChange_length[of "''a''" initial_state]
  by simp

text \<open>
  C6 as stated fails: the text \<open>a\<close> followed by a space has trimmed length 1, and the
  request is sent.
\<close>

theorem handleQueryChange_untrimmed:
  "snd (handleQueryChange ''a '' initial_state) = Some ''a '' \<and> length (js_trim ''a '') < 2"
  by (simp add: handleQueryChange_def js_trim_def is_space_def)

subsection \<open>C7: adding a symbol\<close>

text \<open>
  C7. \<open>handleAdd\<close> leaves the watchlist, and so its length, unchanged for a symbol that
  is in it, and appends a symbol that is not; adding the same symbol twice is adding
  it once.
\<close>

theorem handleAdd_idempotent:
  "(symb \<in> set (symbols st) \<longrightarrow>
      symbols (handleAdd symb st) = symbols st \<and>
      length (symbols (handleAdd symb st)) = length (symbols st)) \<and>
   (symb \<notin> set (symbols st) \<longrightarrow> symbols (handleAdd symb st) = symbols st @ [symb]) \<and>
   symbols (handleAdd symb (handleAdd symb st)) = symbols (handleAdd symb st)"
  by (simp add: handleAdd_def Let_def)

text \<open>Witness for C7: a symbol of the initial watchlist, and a new one added twice.\<close>

theorem handleAdd_idempotent_witness:
  "''AAPL'' \<in> set (symbols initial_state) \<and>
   symbols (handleAdd ''AAPL'' initial_state) = [''AAPL''] \<and>
   ''MSFT'' \<notin> set (symbols initial_state) \<and>
   symbols (handleAdd ''MSFT'' initial_state) = [''AAPL'', ''MSFT''] \<and>
   symbols (handleAdd ''MSFT'' (handleAdd ''MSFT'' initial_state)) = [''AAPL'', ''MSFT'']"
  using handleAdd_idempotent[of "''AAPL''" initial_state]
    handleAdd_idempotent[of "''MSFT''" initial_state]
  by (simp add: initial_state_def)

subsection \<open>C8: the stored history\<close>

text \<open>
  C8, as the code has it. The snapshot a successful fetch stores has as its
  \<open>latestClose\<close> the close of the last element of its history; the history is
  non-decreasing by timestamp when every time key of the series is a date.
\<close>

theorem history_chronological:
  assumes "fetchStock_try env symb (Resolved (Body (Some rawSeries))) = Inr d"
  shows "dataMap (fetchStock_complete env symb (Resolved (Body (Some rawSeries))) st) symb =
           Some d \<and>
         latestClose d = close (last (history d)) \<and>
         (list_all (dated env) (map fst rawSeries) \<longrightarrow> chronological env (history d))"
proof -
  obtain ps where ps: "parse_points env rawSeries = Inr ps" "2 \<le> length ps"
    using fetchStock_try_Inr[OF assms] by auto
  have d: "history d = js_sort (time_cmp env) ps" "latestClose d = close (last (history d))"
    using fetchStock_try_success[OF ps, of symb] assms by auto
  have "map time ps = map fst rawSeries" using parse_points_Inr[OF ps(1)] by simp
  then have "list_all (dated env) (map fst rawSeries) \<Longrightarrow> chronological env (history d)"
    using chronological_js_sort[of env ps] d(1) by simp
  then show ?thesis using d(2) assms by (auto simp: fetchStock_complete_def Let_def)
qed

text \<open>Witness for C8: the scenario's series.\<close>

theorem history_chronological_witness:
  "fetchStock_try sample_env ''AAPL'' (Resolved (Body (Some scenario_series))) =
     Inr scenario_snapshot \<and>
   list_all (dated sample_env) (map fst scenario_series) \<and>
   dataMap (fetchStock_complete sample_env ''AAPL'' (Resolved (Body (Some scenario_series)))
      initial_state) ''AAPL'' = Some scenario_snapshot \<and>
   latestClose scenario_snapshot = close (last (history scenario_snapshot)) \<and>
   chronological sample_env (history scenario_snapshot)"
  using history_chronological[OF try_scenario_series, of initial_state] try_scenario_series
    dated_scenario
  by simp

text \<open>
  C8 as stated fails where a time key is not a date: its time is \<open>NaN\<close>, the comparator
  returns \<open>NaN\<close> against it, and the samples of 09:40 and 09:35 stay in this order
  around it.
\<close>

theorem history_not_chronological:
  "dataMap (fetchStock sample_env ''AAPL'' (Resolved (Body (Some undated_series))) initial_state)
     ''AAPL'' =
     Some \<lparr>symbol = ''AAPL'', latestClose = Fin 101, changePct = Fin 1,
           history = undated_points\<rparr> \<and>
   \<not> chronological sample_env undated_points"
proof -
  have "\<not> chronological sample_env undated_points"
    by (simp add: chronological_def time_le_def time_num_def sample_env_def undated_points_def)
  then show ?thesis
    by (simp add: fetchStock_def fetchStock_complete_def Let_def try_undated_series)
qed

subsection \<open>C9: the suggestions\<close>



subsection \<open>C10: the frame of a fetch\<close>

text \<open>
  C10. Neither part of \<open>fetchStock\<close> for a symbol, before the request or after it has
  settled (with a snapshot or with a failure), changes the entry of another symbol in
  \<open>dataMap\<close>, \<open>loadingMap\<close> or \<open>errorMap\<close>, nor the watchlist, the selection or the sort
  direction.
\<close>

theorem fetchStock_frame:
  assumes "s' \<noteq> symb"
  shows "dataMap (fetchStock_start symb st) s' = dataMap st s' \<and>
         loadingMap (fetchStock_start symb st) s' = loadingMap st s' \<and>
         errorMap (fetchStock_start symb st) s' = errorMap st s' \<and>
         symbols (fetchStock_start symb st) = symbols st \<and>
         selected (fetchStock_start symb st) = selected st \<and>
         sortAsc (fetchStock_start symb st) = sortAsc st \<and>
         dataMap (fetchStock_complete env symb res st) s' = dataMap st s' \<and>
         loadingMap (fetchStock_complete env symb res st) s' = loadingMap st s' \<and>
         errorMap (fetchStock_complete env symb res st) s' = errorMap st s' \<and>
         symbols (fetchStock_complete env symb res st) = symbols st \<and>
         selected (fetchStock_complete env symb res st) = selected st \<and>
         sortAsc (fetchStock_complete env symb res st) = sortAsc st"
  using assms
  by (simp add: fetchStock_start_def fetchStock_complete_def Let_def split: sum.splits)

text \<open>
  Witness for C10: a rejected fetch for AAPL leaves the snapshot of MSFT and the
  watchlist as they were.
\<close>

theorem fetchStock_frame_witness:
  "''MSFT'' \<noteq> ''AAPL'' \<and>
   map_option latestClose
     (dataMap (fetchStock_complete sample_env ''AAPL'' (Rejected ''Network Error'') priced_state)
        ''MSFT'') = Some (Fin 99) \<and>
   dataMap (fetchStock_complete sample_env ''AAPL'' (Rejected ''Network Error'') priced_state)
     ''AAPL'' = None \<and>
   symbols (fetchStock_complete sample_env ''AAPL'' (Rejected ''Network Error'') priced_state) =
     [''AAPL'', ''MSFT'', ''IBM'']"
proof -
  have n: "''MSFT'' \<noteq> ''AAPL''" by simp
  have f: "dataMap (fetchStock_complete sample_env ''AAPL'' (Rejected ''Network Error'')
             priced_state) ''AAPL'' = None"
    by (simp add: fetchStock_complete_def fetchStock_try_def Let_def)
  show ?thesis
    using fetchStock_frame[OF n, of priced_state sample_env "Rejected ''Network Error''"] f
    by (simp add: priced_state_fields)
qed

end
